theory Spec2Isabelle
  imports Main "HOL-Library.Word"
begin

section \<open>Chain configuration (params/config.go)\<close>

text \<open>
  A Go \<^verbatim>\<open>*big.Int\<close> is an arbitrary-precision integer behind a pointer that may be
  nil: it is modelled as \<open>int option\<close>, with \<open>None\<close> for nil. A \<^verbatim>\<open>uint64\<close> is a
  \<open>64 word\<close>, a \<^verbatim>\<open>common.Hash\<close> a \<open>256 word\<close> and a \<^verbatim>\<open>common.Address\<close> a
  \<open>160 word\<close>.
\<close>

type_synonym bigInt = "int option"

type_synonym uint64 = "64 word"

type_synonym Hash = "256 word"

type_synonym Address = "160 word"

text \<open>\<^verbatim>\<open>CliqueConfig\<close>: the proof-of-authority engine parameters.\<close>

record CliqueConfig =
  Period :: uint64
  Epoch :: uint64

text \<open>
  \<^verbatim>\<open>ChainConfig\<close>. The first eleven fields are the ones the struct declaration lists,
  in its order; \<^verbatim>\<open>EthashConfig\<close> is an empty struct, so the pointer to it carries only
  whether it is nil. The remaining fields are the fork heights that the literal
  \<^verbatim>\<open>MainnetChainConfig\<close>, the method \<^verbatim>\<open>String\<close> and the \<^verbatim>\<open>Is*\<close> accessors of the
  same file read, although the declaration does not list them: each is used as a
  \<^verbatim>\<open>*big.Int\<close> there and gets that type here.
\<close>

record ChainConfig =
  ChainId :: bigInt
  HomesteadBlock :: bigInt
  DAOForkBlock :: bigInt
  DAOForkSupport :: bool
  EIP150Block :: bigInt
  EIP150Hash :: Hash
  EIP155Block :: bigInt
  EIP158Block :: bigInt
  ByzantiumBlock :: bigInt
  Ethash :: "unit option"
  Clique :: "CliqueConfig option"
  FrontierBlock :: bigInt
  HorizonBlock :: bigInt
  HopeBlock :: bigInt
  SettlementBlock :: bigInt
  DunedinBlock :: bigInt
  BerlinBlock :: bigInt
  PekingBlock :: bigInt
  RennisanceBlock :: bigInt
  EdinburghBlock :: bigInt
  KitchenerBlock :: bigInt
  WaterlooBlock :: bigInt
  KyotoBlock :: bigInt
  InstanbulBlock :: bigInt
  NovaBlock :: bigInt
  SolBlock :: bigInt
  ChenXingBlock :: bigInt
  TaihakuseiBlock :: bigInt
  SaoHaoBlock :: bigInt
  JupiterBlock :: bigInt
  PlutoBlock :: bigInt
  MilkyWayBlock :: bigInt
  AndromedaBlock :: bigInt
  BodesBlock :: bigInt
  HoagsBlock :: bigInt
  MayallsBlock :: bigInt
  ThalesBlock :: bigInt
  PythagorasBlock :: bigInt
  ParmenidesBlock :: bigInt
  ZenoBlock :: bigInt
  SocratesBlock :: bigInt
  PlatoBlock :: bigInt
  CiceroBlock :: bigInt
  AquinasBlock :: bigInt
  DescartesBlock :: bigInt
  HobbesBlock :: bigInt
  SpinozaBlock :: bigInt
  LockeBlock :: bigInt
  NewtonBlock :: bigInt
  LeibnizBlock :: bigInt
  VoltaireBlock :: bigInt
  HumeBlock :: bigInt
  RousseauBlock :: bigInt
  SmithBlock :: bigInt
  KantBlock :: bigInt
  ButerinBlock :: bigInt

text \<open>
  \<^verbatim>\<open>MainnetChainConfig\<close>, a keyed literal: the fields it does not name
  (\<^verbatim>\<open>HomesteadBlock\<close>, \<^verbatim>\<open>Clique\<close>) have Go's zero value.
\<close>

definition MainnetChainConfig :: ChainConfig where
  "MainnetChainConfig = \<lparr>
     ChainId = Some 1,
     HomesteadBlock = None,
     DAOForkBlock = Some 0,
     DAOForkSupport = False,
     EIP150Block = Some 0,
     EIP150Hash = 0x2086799aeebeae135c246c65021c82b4e15a2c451340993aacfd2751886514f0,
     EIP155Block = Some 0,
     EIP158Block = Some 0,
     ByzantiumBlock = Some 2848950,
     Ethash = Some (),
     Clique = None,
     FrontierBlock = Some 1,
     HorizonBlock = Some 876600,
     HopeBlock = Some 1534050,
     SettlementBlock = Some 1972350,
     DunedinBlock = Some 3506400,
     BerlinBlock = Some 4383000,
     PekingBlock = Some 5259600,
     RennisanceBlock = Some 6355350,
     EdinburghBlock = Some 6574500,
     KitchenerBlock = Some 7012800,
     WaterlooBlock = Some 7670250,
     KyotoBlock = Some 8546850,
     InstanbulBlock = Some 9642600,
     NovaBlock = Some 10957500,
     SolBlock = Some 13149000,
     ChenXingBlock = Some 13368150,
     TaihakuseiBlock = Some 13806450,
     SaoHaoBlock = Some 14463900,
     JupiterBlock = Some 15350500,
     PlutoBlock = Some 16655400,
     MilkyWayBlock = Some 21915000,
     AndromedaBlock = Some 22134150,
     BodesBlock = Some 22572450,
     HoagsBlock = Some 23229900,
     MayallsBlock = Some 24106500,
     ThalesBlock = Some 26517150,
     PythagorasBlock = Some 26955450,
     ParmenidesBlock = Some 27832050,
     ZenoBlock = Some 29146950,
     SocratesBlock = Some 30900150,
     PlatoBlock = Some 33091650,
     CiceroBlock = Some 35721450,
     AquinasBlock = Some 38351250,
     DescartesBlock = Some 41200200,
     HobbesBlock = Some 43830000,
     SpinozaBlock = Some 44049150,
     LockeBlock = Some 45144900,
     NewtonBlock = Some 46021500,
     LeibnizBlock = Some 46240650,
     VoltaireBlock = Some 47117250,
     HumeBlock = Some 47774700,
     RousseauBlock = Some 49308750,
     SmithBlock = Some 50185350,
     KantBlock = Some 51061950,
     ButerinBlock = Some 51938550 \<rparr>"

text \<open>
  \<^verbatim>\<open>AllEthashProtocolChanges\<close>, a positional literal over the eleven declared fields; the
  fork heights outside the declaration stay nil.
\<close>

definition AllEthashProtocolChanges :: ChainConfig where
  "AllEthashProtocolChanges = \<lparr>
     ChainId = Some 1337,
     HomesteadBlock = Some 0,
     DAOForkBlock = None,
     DAOForkSupport = False,
     EIP150Block = Some 0,
     EIP150Hash = 0,
     EIP155Block = Some 0,
     EIP158Block = Some 0,
     ByzantiumBlock = Some 0,
     Ethash = Some (),
     Clique = None,
     FrontierBlock = None,
     HorizonBlock = None,
     HopeBlock = None,
     SettlementBlock = None,
     DunedinBlock = None,
     BerlinBlock = None,
     PekingBlock = None,
     RennisanceBlock = None,
     EdinburghBlock = None,
     KitchenerBlock = None,
     WaterlooBlock = None,
     KyotoBlock = None,
     InstanbulBlock = None,
     NovaBlock = None,
     SolBlock = None,
     ChenXingBlock = None,
     TaihakuseiBlock = None,
     SaoHaoBlock = None,
     JupiterBlock = None,
     PlutoBlock = None,
     MilkyWayBlock = None,
     AndromedaBlock = None,
     BodesBlock = None,
     HoagsBlock = None,
     MayallsBlock = None,
     ThalesBlock = None,
     PythagorasBlock = None,
     ParmenidesBlock = None,
     ZenoBlock = None,
     SocratesBlock = None,
     PlatoBlock = None,
     CiceroBlock = None,
     AquinasBlock = None,
     DescartesBlock = None,
     HobbesBlock = None,
     SpinozaBlock = None,
     LockeBlock = None,
     NewtonBlock = None,
     LeibnizBlock = None,
     VoltaireBlock = None,
     HumeBlock = None,
     RousseauBlock = None,
     SmithBlock = None,
     KantBlock = None,
     ButerinBlock = None \<rparr>"

text \<open>\<^verbatim>\<open>AllCliqueProtocolChanges\<close>, likewise, with the proof-of-authority sub-config.\<close>

definition AllCliqueProtocolChanges :: ChainConfig where
  "AllCliqueProtocolChanges = \<lparr>
     ChainId = Some 1337,
     HomesteadBlock = Some 0,
     DAOForkBlock = None,
     DAOForkSupport = False,
     EIP150Block = Some 0,
     EIP150Hash = 0,
     EIP155Block = Some 0,
     EIP158Block = Some 0,
     ByzantiumBlock = Some 0,
     Ethash = None,
     Clique = Some \<lparr>Period = 0, Epoch = 30000\<rparr>,
     FrontierBlock = None,
     HorizonBlock = None,
     HopeBlock = None,
     SettlementBlock = None,
     DunedinBlock = None,
     BerlinBlock = None,
     PekingBlock = None,
     RennisanceBlock = None,
     EdinburghBlock = None,
     KitchenerBlock = None,
     WaterlooBlock = None,
     KyotoBlock = None,
     InstanbulBlock = None,
     NovaBlock = None,
     SolBlock = None,
     ChenXingBlock = None,
     TaihakuseiBlock = None,
     SaoHaoBlock = None,
     JupiterBlock = None,
     PlutoBlock = None,
     MilkyWayBlock = None,
     AndromedaBlock = None,
     BodesBlock = None,
     HoagsBlock = None,
     MayallsBlock = None,
     ThalesBlock = None,
     PythagorasBlock = None,
     ParmenidesBlock = None,
     ZenoBlock = None,
     SocratesBlock = None,
     PlatoBlock = None,
     CiceroBlock = None,
     AquinasBlock = None,
     DescartesBlock = None,
     HobbesBlock = None,
     SpinozaBlock = None,
     LockeBlock = None,
     NewtonBlock = None,
     LeibnizBlock = None,
     VoltaireBlock = None,
     HumeBlock = None,
     RousseauBlock = None,
     SmithBlock = None,
     KantBlock = None,
     ButerinBlock = None \<rparr>"

text \<open>\<^verbatim>\<open>TestChainConfig\<close>.\<close>

definition TestChainConfig :: ChainConfig where
  "TestChainConfig = \<lparr>
     ChainId = Some 1,
     HomesteadBlock = Some 0,
     DAOForkBlock = None,
     DAOForkSupport = False,
     EIP150Block = Some 0,
     EIP150Hash = 0,
     EIP155Block = Some 0,
     EIP158Block = Some 0,
     ByzantiumBlock = Some 0,
     Ethash = Some (),
     Clique = None,
     FrontierBlock = None,
     HorizonBlock = None,
     HopeBlock = None,
     SettlementBlock = None,
     DunedinBlock = None,
     BerlinBlock = None,
     PekingBlock = None,
     RennisanceBlock = None,
     EdinburghBlock = None,
     KitchenerBlock = None,
     WaterlooBlock = None,
     KyotoBlock = None,
     InstanbulBlock = None,
     NovaBlock = None,
     SolBlock = None,
     ChenXingBlock = None,
     TaihakuseiBlock = None,
     SaoHaoBlock = None,
     JupiterBlock = None,
     PlutoBlock = None,
     MilkyWayBlock = None,
     AndromedaBlock = None,
     BodesBlock = None,
     HoagsBlock = None,
     MayallsBlock = None,
     ThalesBlock = None,
     PythagorasBlock = None,
     ParmenidesBlock = None,
     ZenoBlock = None,
     SocratesBlock = None,
     PlatoBlock = None,
     CiceroBlock = None,
     AquinasBlock = None,
     DescartesBlock = None,
     HobbesBlock = None,
     SpinozaBlock = None,
     LockeBlock = None,
     NewtonBlock = None,
     LeibnizBlock = None,
     VoltaireBlock = None,
     HumeBlock = None,
     RousseauBlock = None,
     SmithBlock = None,
     KantBlock = None,
     ButerinBlock = None \<rparr>"

subsection \<open>Fork activation\<close>

text \<open>
  \<^verbatim>\<open>isForked(s, head)\<close>: false when either pointer is nil, else \<^verbatim>\<open>s.Cmp(head) <= 0\<close>.
\<close>

fun isForked :: "bigInt \<Rightarrow> bigInt \<Rightarrow> bool" where
  "isForked None head = False"
| "isForked (Some s) None = False"
| "isForked (Some s) (Some head) = (s \<le> head)"

text \<open>
  \<^verbatim>\<open>configNumEqual(x, y)\<close>: two nil pointers are equal, a nil and a non-nil one are not,
  two numbers are compared by value.
\<close>

fun configNumEqual :: "bigInt \<Rightarrow> bigInt \<Rightarrow> bool" where
  "configNumEqual None y = (y = None)"
| "configNumEqual (Some x) None = False"
| "configNumEqual (Some x) (Some y) = (x = y)"

text \<open>
  \<^verbatim>\<open>isForkIncompatible(s1, s2, head)\<close>: a fork scheduled at \<open>s1\<close> cannot be rescheduled
  to \<open>s2\<close> because the head is already past it.
\<close>

definition isForkIncompatible :: "bigInt \<Rightarrow> bigInt \<Rightarrow> bigInt \<Rightarrow> bool" where
  "isForkIncompatible s1 s2 head =
     ((isForked s1 head \<or> isForked s2 head) \<and> \<not> configNumEqual s1 s2)"

text \<open>
  The per-fork accessors, in the order of the source. The source declares \<^verbatim>\<open>IsFrontier\<close>
  twice with the same body (the second time between \<^verbatim>\<open>IsAndromeda\<close> and \<^verbatim>\<open>IsHoags\<close>),
  declares no accessor for \<^verbatim>\<open>BodesBlock\<close> or \<^verbatim>\<open>HomesteadBlock\<close>, and has \<^verbatim>\<open>IsSaoHao\<close>
  read \<^verbatim>\<open>c.FrontierBlock\<close>.
\<close>

definition IsFrontier :: "ChainConfig \<Rightarrow> bigInt \<Rightarrow> bool" where
  "IsFrontier c num = isForked (FrontierBlock c) num"

definition IsHorizon :: "ChainConfig \<Rightarrow> bigInt \<Rightarrow> bool" where
  "IsHorizon c num = isForked (HorizonBlock c) num"

definition IsHope :: "ChainConfig \<Rightarrow> bigInt \<Rightarrow> bool" where
  "IsHope c num = isForked (HopeBlock c) num"

definition IsSettlement :: "ChainConfig \<Rightarrow> bigInt \<Rightarrow> bool" where
  "IsSettlement c num = isForked (SettlementBlock c) num"

definition IsByzantium :: "ChainConfig \<Rightarrow> bigInt \<Rightarrow> bool" where
  "IsByzantium c num = isForked (ByzantiumBlock c) num"

definition IsDunedin :: "ChainConfig \<Rightarrow> bigInt \<Rightarrow> bool" where
  "IsDunedin c num = isForked (DunedinBlock c) num"

definition IsBerlin :: "ChainConfig \<Rightarrow> bigInt \<Rightarrow> bool" where
  "IsBerlin c num = isForked (BerlinBlock c) num"

definition IsPeking :: "ChainConfig \<Rightarrow> bigInt \<Rightarrow> bool" where
  "IsPeking c num = isForked (PekingBlock c) num"

definition IsRennisance :: "ChainConfig \<Rightarrow> bigInt \<Rightarrow> bool" where
  "IsRennisance c num = isForked (RennisanceBlock c) num"

definition IsEdinburgh :: "ChainConfig \<Rightarrow> bigInt \<Rightarrow> bool" where
  "IsEdinburgh c num = isForked (EdinburghBlock c) num"

definition IsKitchener :: "ChainConfig \<Rightarrow> bigInt \<Rightarrow> bool" where
  "IsKitchener c num = isForked (KitchenerBlock c) num"

definition IsWaterloo :: "ChainConfig \<Rightarrow> bigInt \<Rightarrow> bool" where
  "IsWaterloo c num = isForked (WaterlooBlock c) num"

definition IsKyoto :: "ChainConfig \<Rightarrow> bigInt \<Rightarrow> bool" where
  "IsKyoto c num = isForked (KyotoBlock c) num"

definition IsInstanbul :: "ChainConfig \<Rightarrow> bigInt \<Rightarrow> bool" where
  "IsInstanbul c num = isForked (InstanbulBlock c) num"

definition IsNova :: "ChainConfig \<Rightarrow> bigInt \<Rightarrow> bool" where
  "IsNova c num = isForked (NovaBlock c) num"

definition IsSol :: "ChainConfig \<Rightarrow> bigInt \<Rightarrow> bool" where
  "IsSol c num = isForked (SolBlock c) num"

definition IsChenXing :: "ChainConfig \<Rightarrow> bigInt \<Rightarrow> bool" where
  "IsChenXing c num = isForked (ChenXingBlock c) num"

definition IsTaihakusei :: "ChainConfig \<Rightarrow> bigInt \<Rightarrow> bool" where
  "IsTaihakusei c num = isForked (TaihakuseiBlock c) num"

definition IsSaoHao :: "ChainConfig \<Rightarrow> bigInt \<Rightarrow> bool" where
  "IsSaoHao c num = isForked (FrontierBlock c) num"

definition IsJupiter :: "ChainConfig \<Rightarrow> bigInt \<Rightarrow> bool" where
  "IsJupiter c num = isForked (JupiterBlock c) num"

definition IsPluto :: "ChainConfig \<Rightarrow> bigInt \<Rightarrow> bool" where
  "IsPluto c num = isForked (PlutoBlock c) num"

definition IsMilkyWay :: "ChainConfig \<Rightarrow> bigInt \<Rightarrow> bool" where
  "IsMilkyWay c num = isForked (MilkyWayBlock c) num"

definition IsAndromeda :: "ChainConfig \<Rightarrow> bigInt \<Rightarrow> bool" where
  "IsAndromeda c num = isForked (AndromedaBlock c) num"

definition IsHoags :: "ChainConfig \<Rightarrow> bigInt \<Rightarrow> bool" where
  "IsHoags c num = isForked (HoagsBlock c) num"

definition IsMayalls :: "ChainConfig \<Rightarrow> bigInt \<Rightarrow> bool" where
  "IsMayalls c num = isForked (MayallsBlock c) num"

definition IsThales :: "ChainConfig \<Rightarrow> bigInt \<Rightarrow> bool" where
  "IsThales c num = isForked (ThalesBlock c) num"

definition IsPythagoras :: "ChainConfig \<Rightarrow> bigInt \<Rightarrow> bool" where
  "IsPythagoras c num = isForked (PythagorasBlock c) num"

definition IsParmenides :: "ChainConfig \<Rightarrow> bigInt \<Rightarrow> bool" where
  "IsParmenides c num = isForked (ParmenidesBlock c) num"

definition IsZeno :: "ChainConfig \<Rightarrow> bigInt \<Rightarrow> bool" where
  "IsZeno c num = isForked (ZenoBlock c) num"

definition IsSocrates :: "ChainConfig \<Rightarrow> bigInt \<Rightarrow> bool" where
  "IsSocrates c num = isForked (SocratesBlock c) num"

definition IsPlato :: "ChainConfig \<Rightarrow> bigInt \<Rightarrow> bool" where
  "IsPlato c num = isForked (PlatoBlock c) num"

definition IsCicero :: "ChainConfig \<Rightarrow> bigInt \<Rightarrow> bool" where
  "IsCicero c num = isForked (CiceroBlock c) num"

definition IsAquinas :: "ChainConfig \<Rightarrow> bigInt \<Rightarrow> bool" where
  "IsAquinas c num = isForked (AquinasBlock c) num"

definition IsDescartes :: "ChainConfig \<Rightarrow> bigInt \<Rightarrow> bool" where
  "IsDescartes c num = isForked (DescartesBlock c) num"

definition IsHobbes :: "ChainConfig \<Rightarrow> bigInt \<Rightarrow> bool" where
  "IsHobbes c num = isForked (HobbesBlock c) num"

definition IsSpinoza :: "ChainConfig \<Rightarrow> bigInt \<Rightarrow> bool" where
  "IsSpinoza c num = isForked (SpinozaBlock c) num"

definition IsLocke :: "ChainConfig \<Rightarrow> bigInt \<Rightarrow> bool" where
  "IsLocke c num = isForked (LockeBlock c) num"

definition IsNewton :: "ChainConfig \<Rightarrow> bigInt \<Rightarrow> bool" where
  "IsNewton c num = isForked (NewtonBlock c) num"

definition IsLeibniz :: "ChainConfig \<Rightarrow> bigInt \<Rightarrow> bool" where
  "IsLeibniz c num = isForked (LeibnizBlock c) num"

definition IsVoltaire :: "ChainConfig \<Rightarrow> bigInt \<Rightarrow> bool" where
  "IsVoltaire c num = isForked (VoltaireBlock c) num"

definition IsHume :: "ChainConfig \<Rightarrow> bigInt \<Rightarrow> bool" where
  "IsHume c num = isForked (HumeBlock c) num"

definition IsRousseau :: "ChainConfig \<Rightarrow> bigInt \<Rightarrow> bool" where
  "IsRousseau c num = isForked (RousseauBlock c) num"

definition IsSmith :: "ChainConfig \<Rightarrow> bigInt \<Rightarrow> bool" where
  "IsSmith c num = isForked (SmithBlock c) num"

definition IsKant :: "ChainConfig \<Rightarrow> bigInt \<Rightarrow> bool" where
  "IsKant c num = isForked (KantBlock c) num"

definition IsButerin :: "ChainConfig \<Rightarrow> bigInt \<Rightarrow> bool" where
  "IsButerin c num = isForked (ButerinBlock c) num"

definition IsDAOFork :: "ChainConfig \<Rightarrow> bigInt \<Rightarrow> bool" where
  "IsDAOFork c num = isForked (DAOForkBlock c) num"

definition IsEIP150 :: "ChainConfig \<Rightarrow> bigInt \<Rightarrow> bool" where
  "IsEIP150 c num = isForked (EIP150Block c) num"

definition IsEIP155 :: "ChainConfig \<Rightarrow> bigInt \<Rightarrow> bool" where
  "IsEIP155 c num = isForked (EIP155Block c) num"

definition IsEIP158 :: "ChainConfig \<Rightarrow> bigInt \<Rightarrow> bool" where
  "IsEIP158 c num = isForked (EIP158Block c) num"

text \<open>All the accessors of the source, in its order.\<close>

definition accessors :: "(ChainConfig \<Rightarrow> bigInt \<Rightarrow> bool) list" where
  "accessors =
     [IsFrontier, IsHorizon, IsHope, IsSettlement, IsByzantium, IsDunedin, IsBerlin,
     IsPeking, IsRennisance, IsEdinburgh, IsKitchener, IsWaterloo, IsKyoto, IsInstanbul,
     IsNova, IsSol, IsChenXing, IsTaihakusei, IsSaoHao, IsJupiter, IsPluto, IsMilkyWay,
     IsAndromeda, IsHoags, IsMayalls, IsThales, IsPythagoras, IsParmenides, IsZeno,
     IsSocrates, IsPlato, IsCicero, IsAquinas, IsDescartes, IsHobbes, IsSpinoza, IsLocke,
     IsNewton, IsLeibniz, IsVoltaire, IsHume, IsRousseau, IsSmith, IsKant, IsButerin,
     IsDAOFork, IsEIP150, IsEIP155, IsEIP158]"

subsection \<open>Compatibility of two configurations\<close>

text \<open>\<^verbatim>\<open>ConfigCompatError\<close>: the error value, with the block to rewind to.\<close>

record ConfigCompatError =
  What :: string
  StoredConfig :: bigInt
  NewConfig :: bigInt
  RewindTo :: uint64

text \<open>
  The \<^verbatim>\<open>switch\<close> of \<^verbatim>\<open>newCompatError\<close> that selects \<^verbatim>\<open>rew\<close>, the block number that
  governs the rewind: the new block when the stored one is nil, the stored one when the
  new one is nil or larger, the new one otherwise.
\<close>

definition rew :: "bigInt \<Rightarrow> bigInt \<Rightarrow> bigInt" where
  "rew storedblock newblock =
     (if storedblock = None then newblock
      else if newblock = None \<or> the storedblock < the newblock then storedblock
      else newblock)"

text \<open>
  \<^verbatim>\<open>newCompatError\<close>: \<^verbatim>\<open>RewindTo\<close> starts at 0 and becomes \<^verbatim>\<open>rew.Uint64() - 1\<close> when
  \<^verbatim>\<open>rew\<close> is not nil and positive. \<^verbatim>\<open>Uint64()\<close> of a positive number is its low 64
  bits, and the subtraction is the one of \<^verbatim>\<open>uint64\<close>.
\<close>

definition newCompatError :: "string \<Rightarrow> bigInt \<Rightarrow> bigInt \<Rightarrow> ConfigCompatError" where
  "newCompatError what storedblock newblock =
     \<lparr> What = what, StoredConfig = storedblock, NewConfig = newblock,
       RewindTo = (case rew storedblock newblock of
                     None \<Rightarrow> 0
                   | Some r \<Rightarrow> if 0 < r then word_of_int r - 1 else 0) \<rparr>"

text \<open>
  \<^verbatim>\<open>checkCompatible\<close>: the checks in the order of the source; the first one that fires
  returns its error, and nil (\<open>None\<close>) is returned when none does.
\<close>

definition checkCompatible ::
    "ChainConfig \<Rightarrow> ChainConfig \<Rightarrow> bigInt \<Rightarrow> ConfigCompatError option" where
  "checkCompatible c newcfg head =
     (if isForkIncompatible (HomesteadBlock c) (HomesteadBlock newcfg) head then
        Some (newCompatError ''Homestead fork block'' (HomesteadBlock c) (HomesteadBlock newcfg))
      else if isForkIncompatible (DAOForkBlock c) (DAOForkBlock newcfg) head then
        Some (newCompatError ''DAO fork block'' (DAOForkBlock c) (DAOForkBlock newcfg))
      else if IsDAOFork c head \<and> DAOForkSupport c \<noteq> DAOForkSupport newcfg then
        Some (newCompatError ''DAO fork support flag'' (DAOForkBlock c) (DAOForkBlock newcfg))
      else if isForkIncompatible (EIP150Block c) (EIP150Block newcfg) head then
        Some (newCompatError ''EIP150 fork block'' (EIP150Block c) (EIP150Block newcfg))
      else if isForkIncompatible (EIP155Block c) (EIP155Block newcfg) head then
        Some (newCompatError ''EIP155 fork block'' (EIP155Block c) (EIP155Block newcfg))
      else if isForkIncompatible (EIP158Block c) (EIP158Block newcfg) head then
        Some (newCompatError ''EIP158 fork block'' (EIP158Block c) (EIP158Block newcfg))
      else if IsEIP158 c head \<and> \<not> configNumEqual (ChainId c) (ChainId newcfg) then
        Some (newCompatError ''EIP158 chain ID'' (EIP158Block c) (EIP158Block newcfg))
      else if isForkIncompatible (ByzantiumBlock c) (ByzantiumBlock newcfg) head then
        Some (newCompatError ''Byzantium fork block'' (ByzantiumBlock c) (ByzantiumBlock newcfg))
      else None)"

text \<open>
  Every check of \<^verbatim>\<open>checkCompatible\<close> taken on its own: the errors of all the checks
  whose condition holds at \<open>head\<close>, in the order of the source. \<^verbatim>\<open>checkCompatible\<close>
  returns the first of them.
\<close>

definition conflicts :: "ChainConfig \<Rightarrow> ChainConfig \<Rightarrow> bigInt \<Rightarrow> ConfigCompatError list" where
  "conflicts c newcfg head =
     (if isForkIncompatible (HomesteadBlock c) (HomesteadBlock newcfg) head
      then [newCompatError ''Homestead fork block'' (HomesteadBlock c) (HomesteadBlock newcfg)]
      else []) @
     (if isForkIncompatible (DAOForkBlock c) (DAOForkBlock newcfg) head
      then [newCompatError ''DAO fork block'' (DAOForkBlock c) (DAOForkBlock newcfg)]
      else []) @
     (if IsDAOFork c head \<and> DAOForkSupport c \<noteq> DAOForkSupport newcfg
      then [newCompatError ''DAO fork support flag'' (DAOForkBlock c) (DAOForkBlock newcfg)]
      else []) @
     (if isForkIncompatible (EIP150Block c) (EIP150Block newcfg) head
      then [newCompatError ''EIP150 fork block'' (EIP150Block c) (EIP150Block newcfg)]
      else []) @
     (if isForkIncompatible (EIP155Block c) (EIP155Block newcfg) head
      then [newCompatError ''EIP155 fork block'' (EIP155Block c) (EIP155Block newcfg)]
      else []) @
     (if isForkIncompatible (EIP158Block c) (EIP158Block newcfg) head
      then [newCompatError ''EIP158 fork block'' (EIP158Block c) (EIP158Block newcfg)]
      else []) @
     (if IsEIP158 c head \<and> \<not> configNumEqual (ChainId c) (ChainId newcfg)
      then [newCompatError ''EIP158 chain ID'' (EIP158Block c) (EIP158Block newcfg)]
      else []) @
     (if isForkIncompatible (ByzantiumBlock c) (ByzantiumBlock newcfg) head
      then [newCompatError ''Byzantium fork block'' (ByzantiumBlock c) (ByzantiumBlock newcfg)]
      else [])"

text \<open>
  The checks of \<^verbatim>\<open>checkCompatible\<close> grouped by the fork they are about. Each of the six
  forks has its block check; the DAO fork and the EIP158 fork have a second check, which
  fires when the stored configuration has the fork active at \<open>head\<close> and the support
  flags, or the chain identifiers, differ. A boundary is the name of the block check, the
  name of the second check, whether the second check's values differ (\<open>False\<close> where
  there is no second check) and the two block numbers.
\<close>

type_synonym boundary = "string \<times> string \<times> bool \<times> bigInt \<times> bigInt"

definition boundaries :: "ChainConfig \<Rightarrow> ChainConfig \<Rightarrow> boundary list" where
  "boundaries c newcfg =
     [(''Homestead fork block'', [], False, HomesteadBlock c, HomesteadBlock newcfg),
      (''DAO fork block'', ''DAO fork support flag'',
         DAOForkSupport c \<noteq> DAOForkSupport newcfg, DAOForkBlock c, DAOForkBlock newcfg),
      (''EIP150 fork block'', [], False, EIP150Block c, EIP150Block newcfg),
      (''EIP155 fork block'', [], False, EIP155Block c, EIP155Block newcfg),
      (''EIP158 fork block'', ''EIP158 chain ID'',
         \<not> configNumEqual (ChainId c) (ChainId newcfg), EIP158Block c, EIP158Block newcfg),
      (''Byzantium fork block'', [], False, ByzantiumBlock c, ByzantiumBlock newcfg)]"

text \<open>The errors of one boundary whose conditions hold at \<open>head\<close>.\<close>

fun boundaryConflicts :: "boundary \<Rightarrow> bigInt \<Rightarrow> ConfigCompatError list" where
  "boundaryConflicts (what, whatFlag, differ, s1, s2) head =
     (if isForkIncompatible s1 s2 head then [newCompatError what s1 s2] else []) @
     (if isForked s1 head \<and> differ then [newCompatError whatFlag s1 s2] else [])"

text \<open>
  Two configurations that disagree on each of the six forks, for running the checks on
  concrete values.
\<close>

definition stored6 :: ChainConfig where
  "stored6 = TestChainConfig\<lparr>HomesteadBlock := Some 60, DAOForkBlock := Some 50,
     EIP150Block := Some 40, EIP155Block := Some 30, EIP158Block := Some 20,
     ByzantiumBlock := Some 10\<rparr>"

definition candidate6 :: ChainConfig where
  "candidate6 = TestChainConfig\<lparr>HomesteadBlock := Some 65, DAOForkBlock := Some 55,
     EIP150Block := Some 45, EIP155Block := Some 35, EIP158Block := Some 25,
     ByzantiumBlock := Some 15\<rparr>"

section \<open>Node service (rue/backend.go)\<close>

subsection \<open>Engine selection\<close>

text \<open>
  Modelled from the spec: the mode constants of package \<^verbatim>\<open>ruehash\<close>, whose declaration
  is in another package. The spec names the modes fake, test, shared and normal and
  says that an unrecognised flag falls back to normal; \<open>ModeOther\<close> stands for every
  value that is none of the four. \<^verbatim>\<open>CreateConsensusEngine\<close> compares the mode with
  \<^verbatim>\<open>ModeFake\<close>, \<^verbatim>\<open>ModeTest\<close> and \<^verbatim>\<open>ModeShared\<close> only.
\<close>

datatype Mode = ModeNormal | ModeShared | ModeTest | ModeFake | ModeOther nat

text \<open>\<^verbatim>\<open>ruehash.Config\<close>, with the fields that \<^verbatim>\<open>CreateConsensusEngine\<close> reads.\<close>

record RuehashConfig =
  CacheDir :: string
  CachesInMem :: int
  CachesOnDisk :: int
  DatasetDir :: string
  DatasetsInMem :: int
  DatasetsOnDisk :: int
  PowMode :: Mode

text \<open>
  The engines are built by constructors of the packages \<^verbatim>\<open>clique\<close> and \<^verbatim>\<open>ruehash\<close>;
  an engine is represented by the constructor call that made it. \<open>Ruehash_New cfg t\<close>
  is \<^verbatim>\<open>ruehash.New(cfg)\<close> followed by \<^verbatim>\<open>SetThreads(t)\<close>.
\<close>

datatype 'db Engine =
    Clique_New CliqueConfig 'db
  | Ruehash_NewFaker
  | Ruehash_NewTester
  | Ruehash_NewShared
  | Ruehash_New RuehashConfig int

text \<open>
  \<^verbatim>\<open>CreateConsensusEngine\<close>. Of the service context only \<^verbatim>\<open>ctx.ResolvePath\<close> is used:
  it is the parameter \<open>resolvePath\<close>. The configuration literal given to
  \<^verbatim>\<open>ruehash.New\<close> leaves \<^verbatim>\<open>PowMode\<close> at its zero value. The warnings written to the
  log are not part of the model.
\<close>

definition CreateConsensusEngine ::
    "(string \<Rightarrow> string) \<Rightarrow> RuehashConfig \<Rightarrow> ChainConfig \<Rightarrow> 'db \<Rightarrow> 'db Engine" where
  "CreateConsensusEngine resolvePath config chainConfig db =
     (case Clique chainConfig of
        Some clique \<Rightarrow> Clique_New clique db
      | None \<Rightarrow>
          if PowMode config = ModeFake then Ruehash_NewFaker
          else if PowMode config = ModeTest then Ruehash_NewTester
          else if PowMode config = ModeShared then Ruehash_NewShared
          else Ruehash_New
                 \<lparr> CacheDir = resolvePath (CacheDir config),
                   CachesInMem = CachesInMem config,
                   CachesOnDisk = CachesOnDisk config,
                   DatasetDir = DatasetDir config,
                   DatasetsInMem = DatasetsInMem config,
                   DatasetsOnDisk = DatasetsOnDisk config,
                   PowMode = ModeNormal \<rparr> (- 1))"

subsection \<open>The beneficiary\<close>

text \<open>
  The part of the service that \<^verbatim>\<open>Ruebase\<close> touches: the field \<^verbatim>\<open>ruebase\<close> and the
  account manager. The account manager is the list of its wallets, each wallet the list
  of the addresses of its accounts, as \<^verbatim>\<open>Wallets()\<close> and \<^verbatim>\<open>Accounts()\<close> return them.
\<close>

type_synonym Wallet = "Address list"

record Rue =
  ruebase :: Address
  accountManager :: "Wallet list"

text \<open>
  \<^verbatim>\<open>Ruebase\<close> returns an address or an error, and the service as it leaves it. The zero
  address \<^verbatim>\<open>common.Address{}\<close> is \<open>0\<close>. The error is the message of the source. The
  lock and the log line are not part of the model.
\<close>

definition Ruebase :: "Rue \<Rightarrow> (string + Address) \<times> Rue" where
  "Ruebase s =
     (if ruebase s \<noteq> 0 then (Inr (ruebase s), s)
      else case accountManager s of
             [] \<Rightarrow> (Inl ''ruebase must be explicitly specified'', s)
           | wallet # _ \<Rightarrow>
               (case wallet of
                  [] \<Rightarrow> (Inl ''ruebase must be explicitly specified'', s)
                | account # _ \<Rightarrow> (Inr account, s\<lparr>ruebase := account\<rparr>)))"

section \<open>Facts about the fork checks\<close>

lemmas accessor_defs =
  IsFrontier_def IsHorizon_def IsHope_def IsSettlement_def IsByzantium_def IsDunedin_def
  IsBerlin_def IsPeking_def IsRennisance_def IsEdinburgh_def IsKitchener_def IsWaterloo_def
  IsKyoto_def IsInstanbul_def IsNova_def IsSol_def IsChenXing_def IsTaihakusei_def
  IsSaoHao_def IsJupiter_def IsPluto_def IsMilkyWay_def IsAndromeda_def IsHoags_def
  IsMayalls_def IsThales_def IsPythagoras_def IsParmenides_def IsZeno_def IsSocrates_def
  IsPlato_def IsCicero_def IsAquinas_def IsDescartes_def IsHobbes_def IsSpinoza_def
  IsLocke_def IsNewton_def IsLeibniz_def IsVoltaire_def IsHume_def IsRousseau_def
  IsSmith_def IsKant_def IsButerin_def IsDAOFork_def IsEIP150_def IsEIP155_def IsEIP158_def

lemma accessor_form:
  "acc \<in> set accessors \<Longrightarrow> \<exists>fld. \<forall>c num. acc c num = isForked (fld c) num"
  unfolding accessors_def set_simps insert_iff empty_iff
  by (elim disjE FalseE; hypsubst; unfold accessor_defs; intro exI allI; rule refl)

lemma isForked_Some: "isForked s (Some h) = (\<exists>a. s = Some a \<and> a \<le> h)"
  by (cases s) simp_all

lemma isForked_mono: "isForked s (Some h') \<Longrightarrow> h' \<le> h \<Longrightarrow> isForked s (Some h)"
  by (auto simp: isForked_Some)

lemma configNumEqual_eq: "configNumEqual x y = (x = y)"
  by (cases x; cases y) simp_all

lemma checkCompatible_conflicts:
  "checkCompatible c newcfg head = (case conflicts c newcfg head of [] \<Rightarrow> None | e # es \<Rightarrow> Some e)"
  by (simp add: checkCompatible_def conflicts_def)

lemma rew_forked:
  assumes "isForked s1 (Some h) \<or> isForked s2 (Some h)"
  shows "\<exists>r. rew s1 s2 = Some r \<and> r \<le> h \<and> (\<forall>a. s1 = Some a \<longrightarrow> r \<le> a) \<and> (\<forall>b. s2 = Some b \<longrightarrow> r \<le> b)"
  using assms by (cases s1; cases s2) (auto simp: rew_def)

lemma uint_rewind:
  assumes "0 < r" "r \<le> uint (h :: uint64)"
  shows "uint (word_of_int r - 1 :: uint64) = r - 1"
proof -
  have b: "uint h < 2 ^ 64" using uint_bounded [of h] by simp
  have k: "uint (word_of_int k :: uint64) = k" if "0 \<le> k" "k < 2 ^ 64" for k
    using that by (simp add: uint_word_of_int_eq take_bit_int_eq_self)
  have "(word_of_int r - 1 :: uint64) = word_of_int (r - 1)" by simp
  then show ?thesis using k [of "r - 1"] assms b by simp
qed

lemma newCompatError_rewind:
  assumes "isForked s1 (Some (uint (h :: uint64))) \<or> isForked s2 (Some (uint h))"
  shows "\<exists>r. rew s1 s2 = Some r \<and> r \<le> uint h
           \<and> (\<forall>a. s1 = Some a \<longrightarrow> r \<le> a) \<and> (\<forall>b. s2 = Some b \<longrightarrow> r \<le> b)
           \<and> uint (RewindTo (newCompatError w s1 s2)) = max 0 (r - 1)"
proof -
  from rew_forked [OF assms] obtain r where r: "rew s1 s2 = Some r" "r \<le> uint h"
    "\<forall>a. s1 = Some a \<longrightarrow> r \<le> a" "\<forall>b. s2 = Some b \<longrightarrow> r \<le> b" by blast
  have "uint (RewindTo (newCompatError w s1 s2)) = max 0 (r - 1)"
  proof (cases "0 < r")
    case True
    then show ?thesis using r uint_rewind [of r h] by (simp add: newCompatError_def)
  next
    case False
    then show ?thesis using r by (simp add: newCompatError_def)
  qed
  with r show ?thesis by blast
qed


lemma in_set_if_single: "e \<in> set (if b then [x] else []) \<longleftrightarrow> b \<and> e = x"
  by (cases b) simp_all

lemma in_conflicts:
  "e \<in> set (conflicts c n head) \<Longrightarrow>
     \<exists>w s1 s2. e = newCompatError w s1 s2 \<and> (isForked s1 head \<or> isForked s2 head)"
  unfolding conflicts_def set_append Un_iff in_set_if_single isForkIncompatible_def
    IsDAOFork_def IsEIP158_def
  by (elim disjE conjE) (intro exI conjI, assumption, simp)+

lemma checkCompatible_in_conflicts:
  "checkCompatible c n head = Some e \<Longrightarrow> e \<in> set (conflicts c n head)"
  by (simp add: checkCompatible_conflicts split: list.splits)

lemma checkCompatible_None: "checkCompatible c n head = None \<longleftrightarrow> conflicts c n head = []"
  by (simp add: checkCompatible_conflicts split: list.splits)

lemma conflict_rewind_le:
  assumes "e \<in> set (conflicts c n (Some (uint (h :: uint64))))"
  shows "RewindTo e \<le> h"
proof -
  from in_conflicts [OF assms] obtain w s1 s2 where e: "e = newCompatError w s1 s2"
    and f: "isForked s1 (Some (uint h)) \<or> isForked s2 (Some (uint h))" by blast
  from newCompatError_rewind [OF f, of w] obtain r where "r \<le> uint h"
    "uint (RewindTo e) = max 0 (r - 1)" unfolding e by blast
  then have "uint (RewindTo e) \<le> uint h" by simp
  then show ?thesis by (simp add: word_le_def)
qed

lemma conflict_rewind_eq_head:
  assumes "e \<in> set (conflicts c n (Some (uint (h :: uint64))))" "RewindTo e = h"
  shows "h = 0"
proof -
  from in_conflicts [OF assms(1)] obtain w s1 s2 where e: "e = newCompatError w s1 s2"
    and f: "isForked s1 (Some (uint h)) \<or> isForked s2 (Some (uint h))" by blast
  from newCompatError_rewind [OF f, of w] obtain r where "r \<le> uint h"
    "uint (RewindTo e) = max 0 (r - 1)" unfolding e by blast
  with assms(2) have "uint h = 0" by (simp add: max_def split: if_splits)
  then show ?thesis by (simp add: word_uint_eq_iff)
qed

section \<open>The fixed-point iteration\<close>

text \<open>
  The loop of \<^verbatim>\<open>CheckCompatible\<close>, with its two variables \<^verbatim>\<open>lasterr\<close> and
  \<^verbatim>\<open>bhead\<close> as arguments. \<^verbatim>\<open>bhead\<close> only ever holds a \<^verbatim>\<open>uint64\<close>
  (\<^verbatim>\<open>SetUint64\<close>), so it is kept as one and converted where \<^verbatim>\<open>checkCompatible\<close>
  reads it.
\<close>

function CheckCompatible_loop ::
    "ChainConfig \<Rightarrow> ChainConfig \<Rightarrow> ConfigCompatError option \<Rightarrow> uint64 \<Rightarrow> ConfigCompatError option" where
  "CheckCompatible_loop c newcfg lasterr bhead =
     (case checkCompatible c newcfg (Some (uint bhead)) of
        None \<Rightarrow> lasterr
      | Some err \<Rightarrow>
          if lasterr \<noteq> None \<and> RewindTo err = RewindTo (the lasterr) then lasterr
          else CheckCompatible_loop c newcfg (Some err) (RewindTo err))"
  by pat_completeness auto
termination
proof (relation "measure (\<lambda>(c, newcfg, lasterr, bhead).
         2 * unat bhead + (if lasterr \<noteq> None \<and> RewindTo (the lasterr) = bhead then 0 else 1))",
       goal_cases)
  case 1
  show ?case by simp
next
  case (2 c newcfg lasterr bhead err)
  from 2(1) have le: "RewindTo err \<le> bhead"
    by (intro conflict_rewind_le checkCompatible_in_conflicts)
  show ?case
  proof (cases "RewindTo err = bhead")
    case True
    with 2(2) show ?thesis by auto
  next
    case False
    with le have "RewindTo err < bhead" by simp
    then have "unat (RewindTo err) < unat bhead" by (simp add: word_less_nat_alt)
    then show ?thesis by auto
  qed
qed

text \<open>\<^verbatim>\<open>CheckCompatible\<close>: the loop started with no error and the given height.\<close>

definition CheckCompatible ::
    "ChainConfig \<Rightarrow> ChainConfig \<Rightarrow> uint64 \<Rightarrow> ConfigCompatError option" where
  "CheckCompatible c newcfg height = CheckCompatible_loop c newcfg None height"


declare CheckCompatible_loop.simps [simp del]



section \<open>Facts about the iteration\<close>

lemma conflicts_boundaries:
  "conflicts c n head = concat (map (\<lambda>b. boundaryConflicts b head) (boundaries c n))"
  by (simp add: conflicts_def boundaries_def IsDAOFork_def IsEIP158_def)

lemma in_boundaryConflicts:
  "e \<in> set (boundaryConflicts (w, v, d, s1, s2) head) \<longleftrightarrow>
     (isForkIncompatible s1 s2 head \<and> e = newCompatError w s1 s2) \<or>
     (isForked s1 head \<and> d \<and> e = newCompatError v s1 s2)"
  by (auto split: if_splits)


declare boundaryConflicts.simps [simp del]

lemma RewindTo_newCompatError:
  "RewindTo (newCompatError w s1 s2) = RewindTo (newCompatError w' s1 s2)"
  by (simp add: newCompatError_def)

lemma boundary_mono:
  assumes "h' \<le> h" "e \<in> set (boundaryConflicts b (Some h'))"
  shows "e \<in> set (boundaryConflicts b (Some h))"
proof -
  obtain w v d s1 s2 where b: "b = (w, v, d, s1, s2)" by (cases b) 
  from assms show ?thesis unfolding b in_boundaryConflicts isForkIncompatible_def
    using isForked_mono [OF _ assms(1)] by blast
qed

lemma rewind_below:
  assumes f: "isForked s1 (Some (uint (H :: uint64))) \<or> isForked s2 (Some (uint H))"
    and lt: "RewindTo (newCompatError w s1 s2) < (h' :: uint64)"
  shows "isForked s1 (Some (uint h')) \<or> isForked s2 (Some (uint h'))"
proof -
  from newCompatError_rewind [OF f, of w] obtain r where r: "rew s1 s2 = Some r"
    "uint (RewindTo (newCompatError w s1 s2)) = max 0 (r - 1)" by blast
  from lt have "uint (RewindTo (newCompatError w s1 s2)) < uint h'" by (simp add: word_less_def)
  with r(2) have "r \<le> uint h'" by simp
  moreover from r(1) have "s1 = Some r \<or> s2 = Some r" by (auto simp: rew_def split: if_splits)
  ultimately show ?thesis by (auto simp: isForked_Some)
qed


lemma boundary_persist:
  assumes "e \<in> set (boundaryConflicts b (Some (uint (H :: uint64))))" "RewindTo e < (h' :: uint64)"
  shows "\<exists>e' \<in> set (boundaryConflicts b (Some (uint h'))). RewindTo e' = RewindTo e"
proof -
  obtain w v d s1 s2 where b: "b = (w, v, d, s1, s2)" by (cases b)
  from assms(1) obtain w0 where e: "e = newCompatError w0 s1 s2"
    and f: "isForked s1 (Some (uint H)) \<or> isForked s2 (Some (uint H))"
    and k: "\<not> configNumEqual s1 s2 \<or> d"
    unfolding b in_boundaryConflicts isForkIncompatible_def by blast
  from rewind_below [OF f, of w0 h'] assms(2)
  have g: "isForked s1 (Some (uint h')) \<or> isForked s2 (Some (uint h'))" by (simp add: e)
  have r: "RewindTo (newCompatError w' s1 s2) = RewindTo e" for w'
    unfolding e by (rule RewindTo_newCompatError)
  show ?thesis
  proof (cases "configNumEqual s1 s2")
    case False
    with g have "newCompatError w s1 s2 \<in> set (boundaryConflicts b (Some (uint h')))"
      unfolding b in_boundaryConflicts isForkIncompatible_def by simp
    with r show ?thesis by blast
  next
    case True
    with k have d by simp
    from True g have "isForked s1 (Some (uint h'))" by (auto simp: configNumEqual_eq)
    with \<open>d\<close> have "newCompatError v s1 s2 \<in> set (boundaryConflicts b (Some (uint h')))"
      unfolding b in_boundaryConflicts by simp
    with r show ?thesis by blast
  qed
qed


lemma in_conflicts_boundary:
  "e \<in> set (conflicts c n head) \<longleftrightarrow> (\<exists>b \<in> set (boundaries c n). e \<in> set (boundaryConflicts b head))"
  by (simp add: conflicts_boundaries)

lemma conflicts_mono:
  "h' \<le> h \<Longrightarrow> e \<in> set (conflicts c n (Some h')) \<Longrightarrow> e \<in> set (conflicts c n (Some h))"
  unfolding in_conflicts_boundary using boundary_mono by blast

lemma conflicts_persist:
  assumes "e \<in> set (conflicts c n (Some (uint (H :: uint64))))" "RewindTo e < (h' :: uint64)"
  shows "\<exists>e' \<in> set (conflicts c n (Some (uint h'))). RewindTo e' = RewindTo e"
proof -
  from assms(1) obtain b where b: "b \<in> set (boundaries c n)"
    "e \<in> set (boundaryConflicts b (Some (uint H)))" unfolding in_conflicts_boundary by blast
  from boundary_persist [OF b(2) assms(2)] obtain e'
    where "e' \<in> set (boundaryConflicts b (Some (uint h')))" "RewindTo e' = RewindTo e" by blast
  with b(1) have "e' \<in> set (conflicts c n (Some (uint h')))" unfolding in_conflicts_boundary
    by blast
  with \<open>RewindTo e' = RewindTo e\<close> show ?thesis by blast
qed







lemma loop_result:
  assumes "bhead \<le> H"
    and "lasterr = None \<Longrightarrow> bhead = H"
    and "\<And>l. lasterr = Some l \<Longrightarrow> l \<in> set (conflicts c n (Some (uint H))) \<and> RewindTo l = bhead"
  shows "case CheckCompatible_loop c n lasterr bhead of
           None \<Rightarrow> conflicts c n (Some (uint H)) = []
         | Some e \<Rightarrow> e \<in> set (conflicts c n (Some (uint H)))
                    \<and> (\<forall>e' \<in> set (conflicts c n (Some (uint H))). RewindTo e \<le> RewindTo e')"
  using assms
proof (induction c n lasterr bhead rule: CheckCompatible_loop.induct)
  case (1 c n lasterr bhead)
  show ?case
  proof (cases "checkCompatible c n (Some (uint bhead))")
    case None
    then have empty: "conflicts c n (Some (uint bhead)) = []" by (simp add: checkCompatible_None)
    have res: "CheckCompatible_loop c n lasterr bhead = lasterr"
      by (subst CheckCompatible_loop.simps) (simp add: None)
    show ?thesis
    proof (cases lasterr)
      case None
      with "1.prems"(2) empty res show ?thesis by simp
    next
      case (Some l)
      with "1.prems"(3) have l: "l \<in> set (conflicts c n (Some (uint H)))" "RewindTo l = bhead"
        by simp_all
      have "RewindTo l \<le> RewindTo e'" if "e' \<in> set (conflicts c n (Some (uint H)))" for e'
      proof (rule ccontr)
        assume "\<not> RewindTo l \<le> RewindTo e'"
        then have "RewindTo e' < bhead" using l(2) by simp
        from conflicts_persist [OF that this] empty show False by simp
      qed
      with l(1) res Some show ?thesis by simp
    qed
  next
    case (Some err)
    then have e: "err \<in> set (conflicts c n (Some (uint bhead)))"
      by (rule checkCompatible_in_conflicts)
    show ?thesis
    proof (cases "lasterr \<noteq> None \<and> RewindTo err = RewindTo (the lasterr)")
      case True
      then obtain l where l: "lasterr = Some l" "RewindTo err = RewindTo l" by auto
      have res: "CheckCompatible_loop c n lasterr bhead = Some l"
        by (subst CheckCompatible_loop.simps) (simp add: Some l)
      from "1.prems"(3) [OF l(1)] have m: "l \<in> set (conflicts c n (Some (uint H)))"
        "RewindTo l = bhead" by simp_all
      from conflict_rewind_eq_head [OF e] l(2) m(2) have "RewindTo l = 0" by simp
      with m(1) res show ?thesis by simp
    next
      case False
      have res: "CheckCompatible_loop c n lasterr bhead
                   = CheckCompatible_loop c n (Some err) (RewindTo err)"
        by (subst CheckCompatible_loop.simps) (simp only: Some option.case if_not_P [OF False])
      have le: "RewindTo err \<le> bhead" by (rule conflict_rewind_le [OF e])
      with "1.prems"(1) have a: "RewindTo err \<le> H" by simp
      from "1.prems"(1) have "uint bhead \<le> uint H" by (simp add: word_le_def)
      from conflicts_mono [OF this e] have b: "err \<in> set (conflicts c n (Some (uint H)))" .
      have "case CheckCompatible_loop c n (Some err) (RewindTo err) of
              None \<Rightarrow> conflicts c n (Some (uint H)) = []
            | Some e \<Rightarrow> e \<in> set (conflicts c n (Some (uint H)))
                       \<and> (\<forall>e' \<in> set (conflicts c n (Some (uint H))). RewindTo e \<le> RewindTo e')"
      proof (rule "1.IH" [OF Some False a])
        show "Some err = None \<Longrightarrow> RewindTo err = H" by simp
        show "l \<in> set (conflicts c n (Some (uint H))) \<and> RewindTo l = RewindTo err"
          if "Some err = Some l" for l using that b by simp
      qed
      then show ?thesis unfolding res .
    qed
  qed
qed

lemma CheckCompatible_result:
  "case CheckCompatible c n h of
     None \<Rightarrow> conflicts c n (Some (uint h)) = []
   | Some e \<Rightarrow> e \<in> set (conflicts c n (Some (uint h)))
              \<and> (\<forall>e' \<in> set (conflicts c n (Some (uint h))). RewindTo e \<le> RewindTo e')"
  unfolding CheckCompatible_def by (rule loop_result) simp_all

lemma conflicts_same: "conflicts c c head = []"
  by (simp add: conflicts_def isForkIncompatible_def configNumEqual_eq)

lemma StoredConfig_newCompatError [simp]:
  "StoredConfig (newCompatError w s1 s2) = s1" "NewConfig (newCompatError w s1 s2) = s2"
  "What (newCompatError w s1 s2) = w"
  by (simp_all add: newCompatError_def)

lemma conflict_rewind:
  assumes "e \<in> set (conflicts c n (Some (uint (h :: uint64))))"
  shows "\<exists>r. rew (StoredConfig e) (NewConfig e) = Some r \<and> r \<le> uint h
           \<and> uint (RewindTo e) = max 0 (r - 1)"
proof -
  from in_conflicts [OF assms] obtain w s1 s2 where e: "e = newCompatError w s1 s2"
    and f: "isForked s1 (Some (uint h)) \<or> isForked s2 (Some (uint h))" by blast
  from newCompatError_rewind [OF f, of w] show ?thesis unfolding e by auto
qed

lemma returned_in_conflicts:
  assumes "checkCompatible c n (Some (uint h)) = Some err \<or> CheckCompatible c n h = Some err"
  shows "err \<in> set (conflicts c n (Some (uint h)))"
  using assms checkCompatible_in_conflicts [of c n "Some (uint h)" err]
    CheckCompatible_result [of c n h] by auto

lemma conflicts_flag_only:
  "\<not> IsDAOFork c head \<Longrightarrow> conflicts c (c\<lparr>DAOForkSupport := b\<rparr>) head = []"
  by (simp add: conflicts_def isForkIncompatible_def configNumEqual_eq)

lemmas eval_defs = checkCompatible_def isForkIncompatible_def newCompatError_def rew_def
  TestChainConfig_def IsDAOFork_def IsEIP158_def

section \<open>Fork activation: the claims\<close>

text \<open>
  C1. Every accessor is claimed to return true exactly when its own fork's height is set
  and the queried height has reached it, \<^verbatim>\<open>IsSaoHao\<close> included. \<^verbatim>\<open>IsSaoHao\<close> reads
  \<^verbatim>\<open>FrontierBlock\<close>: on the main network, where SaoHao is scheduled at 14463900 and
  Frontier at 1, it answers true at height 1000000, long before the SaoHao height.
\<close>

theorem IsSaoHao_mainnet:
  "SaoHaoBlock MainnetChainConfig = Some 14463900
     \<and> IsSaoHao MainnetChainConfig (Some 1000000)
     \<and> \<not> isForked (SaoHaoBlock MainnetChainConfig) (Some 1000000)"
  by (simp add: IsSaoHao_def MainnetChainConfig_def)

text \<open>
  C8. Activation is monotone in the height: a fork scheduled at any height \<open>s\<close> that is
  active at a height \<open>h1\<close> is active at every greater height \<open>h2\<close>, and so is the answer
  of every accessor of the source.
\<close>

theorem activation_monotone:
  "(isForked s (Some h1) \<and> h1 < h2 \<longrightarrow> isForked s (Some h2))
   \<and> (acc \<in> set accessors \<and> acc c (Some h1) \<and> h1 < h2 \<longrightarrow> acc c (Some h2))"
proof (intro conjI impI)
  assume "isForked s (Some h1) \<and> h1 < h2"
  then show "isForked s (Some h2)" by (auto simp: isForked_Some)
next
  assume a: "acc \<in> set accessors \<and> acc c (Some h1) \<and> h1 < h2"
  then obtain fld where f: "\<And>c num. acc c num = isForked (fld c) num"
    using accessor_form [of acc] by blast
  from a show "acc c (Some h2)" unfolding f by (auto simp: isForked_Some)
qed

theorem activation_monotone_witness:
  "isForked (SaoHaoBlock MainnetChainConfig) (Some 14463900) \<and> (14463900 :: int) < 20000000
   \<and> isForked (SaoHaoBlock MainnetChainConfig) (Some 20000000)
   \<and> IsDAOFork \<in> set accessors \<and> IsDAOFork MainnetChainConfig (Some 14463900)
   \<and> IsDAOFork MainnetChainConfig (Some 20000000)"
proof -
  have a: "isForked (SaoHaoBlock MainnetChainConfig) (Some 14463900)"
    by (simp add: MainnetChainConfig_def)
  have b: "IsDAOFork \<in> set accessors" by (simp add: accessors_def)
  have c: "IsDAOFork MainnetChainConfig (Some 14463900)"
    by (simp add: IsDAOFork_def MainnetChainConfig_def)
  have d: "(14463900 :: int) < 20000000" by simp
  note t = activation_monotone [of "SaoHaoBlock MainnetChainConfig" 14463900 20000000
      IsDAOFork MainnetChainConfig]
  from t a d have e: "isForked (SaoHaoBlock MainnetChainConfig) (Some 20000000)" by blast
  from t b c d have f: "IsDAOFork MainnetChainConfig (Some 20000000)" by blast
  from a b c d e f show ?thesis by blast
qed

text \<open>
  C9. \<^verbatim>\<open>IsSaoHao\<close> returns the activation status of the Frontier fork: at a height \<open>h\<close>
  it is true exactly when \<^verbatim>\<open>FrontierBlock\<close> is set and not above \<open>h\<close>, and it is false
  at a nil height. So it agrees with \<^verbatim>\<open>IsFrontier\<close> on every configuration and height, and
  its result does not change when the SaoHao height is replaced by any other value.
\<close>

theorem IsSaoHao_reads_Frontier:
  "(IsSaoHao c (Some h) \<longleftrightarrow> (\<exists>s. FrontierBlock c = Some s \<and> s \<le> h))
   \<and> IsSaoHao c None = False
   \<and> IsSaoHao c num = IsFrontier c num
   \<and> IsSaoHao (c\<lparr>SaoHaoBlock := s'\<rparr>) num = IsSaoHao c num"
proof -
  have a: "IsSaoHao c (Some h) \<longleftrightarrow> (\<exists>s. FrontierBlock c = Some s \<and> s \<le> h)"
    by (simp add: IsSaoHao_def isForked_Some)
  have b: "IsSaoHao c None = False"
    by (cases "FrontierBlock c") (simp_all add: IsSaoHao_def)
  have c: "IsSaoHao c num = IsFrontier c num" by (simp add: IsSaoHao_def IsFrontier_def)
  have d: "IsSaoHao (c\<lparr>SaoHaoBlock := s'\<rparr>) num = IsSaoHao c num" by (simp add: IsSaoHao_def)
  from a b c d show ?thesis by blast
qed

text \<open>
  On the main network Frontier is scheduled at 1 and SaoHao at 14463900: \<^verbatim>\<open>IsSaoHao\<close> is
  true at height 1000000 and false at height 0, as \<^verbatim>\<open>IsFrontier\<close> is, and stays true at
  1000000 when the SaoHao height is removed.
\<close>

theorem IsSaoHao_reads_Frontier_witness:
  "FrontierBlock MainnetChainConfig = Some 1
   \<and> SaoHaoBlock MainnetChainConfig = Some 14463900
   \<and> IsSaoHao MainnetChainConfig (Some 1000000) = True
   \<and> IsSaoHao MainnetChainConfig (Some 0) = False
   \<and> IsSaoHao MainnetChainConfig None = False
   \<and> IsFrontier MainnetChainConfig (Some 1000000) = True
   \<and> IsSaoHao (MainnetChainConfig\<lparr>SaoHaoBlock := None\<rparr>) (Some 1000000) = True"
proof -
  have f: "FrontierBlock MainnetChainConfig = Some 1"
    and g: "SaoHaoBlock MainnetChainConfig = Some 14463900"
    by (simp_all add: MainnetChainConfig_def)
  note t1 = IsSaoHao_reads_Frontier [of MainnetChainConfig 1000000 "Some 1000000" None]
  note t0 = IsSaoHao_reads_Frontier [of MainnetChainConfig 0 "Some 0" None]
  from t1 f have a: "IsSaoHao MainnetChainConfig (Some 1000000) = True" by simp
  from t0 f have b: "IsSaoHao MainnetChainConfig (Some 0) = False" by simp
  from t1 have c: "IsSaoHao MainnetChainConfig None = False" by blast
  from t1 a have d: "IsFrontier MainnetChainConfig (Some 1000000) = True" by simp
  from t1 a have e: "IsSaoHao (MainnetChainConfig\<lparr>SaoHaoBlock := None\<rparr>) (Some 1000000) = True"
    by simp
  from f g a b c d e show ?thesis by blast
qed

section \<open>Compatibility: the claims\<close>

text \<open>
  C6. A configuration is compatible with itself: \<^verbatim>\<open>CheckCompatible\<close> of two identical
  configurations returns no error, at every head height.
\<close>

theorem identical_schedules_compatible: "CheckCompatible c c height = None"
  unfolding CheckCompatible_def
  by (subst CheckCompatible_loop.simps) (simp add: checkCompatible_conflicts conflicts_same)

text \<open>
  C2, as the code has it. Whenever \<^verbatim>\<open>checkCompatible\<close> at a \<^verbatim>\<open>uint64\<close> head, or the
  whole of \<^verbatim>\<open>CheckCompatible\<close>, returns an error: if the stored height of the error is
  nil, the candidate height \<open>b\<close> is set and the rewind target is \<open>b - 1\<close>, or 0 when
  \<open>b\<close> is not positive; if both heights are set, the rewind target is their minimum
  minus one, or 0 when the minimum is not positive.
\<close>

theorem rewind_target:
  assumes "checkCompatible c n (Some (uint h)) = Some err \<or> CheckCompatible c n h = Some err"
  shows "(StoredConfig err = None \<longrightarrow>
            (\<exists>b. NewConfig err = Some b \<and> uint (RewindTo err) = max 0 (b - 1)))
       \<and> (\<forall>a b. StoredConfig err = Some a \<and> NewConfig err = Some b \<longrightarrow>
            uint (RewindTo err) = max 0 (min a b - 1))"
proof -
  from conflict_rewind [OF returned_in_conflicts [OF assms]] obtain r
    where r: "rew (StoredConfig err) (NewConfig err) = Some r"
      "uint (RewindTo err) = max 0 (r - 1)" by blast
  show ?thesis
  proof (intro conjI impI allI)
    assume "StoredConfig err = None"
    with r show "\<exists>b. NewConfig err = Some b \<and> uint (RewindTo err) = max 0 (b - 1)"
      by (simp add: rew_def)
  next
    fix a b assume "StoredConfig err = Some a \<and> NewConfig err = Some b"
    with r show "uint (RewindTo err) = max 0 (min a b - 1)"
      by (auto simp: rew_def min_def split: if_splits)
  qed
qed

text \<open>
  The example of the spec, stored fork at 100, candidate at 200, head 150, gives the
  rewind target 99; a fork that only the candidate schedules, at 100, gives 99 as well.
\<close>

theorem rewind_target_witness:
  "CheckCompatible (TestChainConfig\<lparr>HomesteadBlock := Some 100\<rparr>)
       (TestChainConfig\<lparr>HomesteadBlock := Some 200\<rparr>) 150
     = Some \<lparr>What = ''Homestead fork block'', StoredConfig = Some 100, NewConfig = Some 200,
             RewindTo = 99\<rparr>
   \<and> uint (99 :: uint64) = max 0 (min 100 200 - 1)
   \<and> checkCompatible TestChainConfig (TestChainConfig\<lparr>DAOForkBlock := Some 100\<rparr>) (Some (uint (150 :: uint64)))
     = Some \<lparr>What = ''DAO fork block'', StoredConfig = None, NewConfig = Some 100, RewindTo = 99\<rparr>
   \<and> uint (99 :: uint64) = max 0 (100 - 1)"
proof -
  let ?e = "\<lparr>What = ''Homestead fork block'', StoredConfig = Some 100, NewConfig = Some 200,
             RewindTo = (99 :: uint64)\<rparr>"
  let ?d = "\<lparr>What = ''DAO fork block'', StoredConfig = None, NewConfig = Some 100,
             RewindTo = (99 :: uint64)\<rparr>"
  have a: "CheckCompatible (TestChainConfig\<lparr>HomesteadBlock := Some 100\<rparr>)
       (TestChainConfig\<lparr>HomesteadBlock := Some 200\<rparr>) 150 = Some ?e"
    by (simp add: CheckCompatible_def CheckCompatible_loop.simps checkCompatible_def
        isForkIncompatible_def newCompatError_def rew_def TestChainConfig_def IsDAOFork_def
        IsEIP158_def)
  have b: "checkCompatible TestChainConfig (TestChainConfig\<lparr>DAOForkBlock := Some 100\<rparr>)
             (Some (uint (150 :: uint64))) = Some ?d"
    by (simp add: checkCompatible_def isForkIncompatible_def newCompatError_def rew_def
        TestChainConfig_def IsDAOFork_def IsEIP158_def)
  from rewind_target [OF disjI2 [OF a]] rewind_target [OF disjI1 [OF b]] a b
  show ?thesis by simp
qed

text \<open>
  C2 as the spec states it puts the rewind target at the candidate's height when the
  stored height is nil, and at the minimum minus one otherwise. With the DAO fork nil in
  the stored configuration and at 100 in the candidate, head 150, the target is 99 and not
  100; with Homestead at 0 and 5, head 10, the target is 0 and not \<open>min 0 5 - 1\<close>.
\<close>

theorem rewind_target_counterexample:
  "DAOForkBlock TestChainConfig = None
   \<and> checkCompatible TestChainConfig (TestChainConfig\<lparr>DAOForkBlock := Some 100\<rparr>) (Some 150)
       = Some \<lparr>What = ''DAO fork block'', StoredConfig = None, NewConfig = Some 100, RewindTo = 99\<rparr>
   \<and> map_option RewindTo
         (checkCompatible TestChainConfig (TestChainConfig\<lparr>DAOForkBlock := Some 100\<rparr>) (Some 150))
       \<noteq> Some 100
   \<and> checkCompatible TestChainConfig (TestChainConfig\<lparr>HomesteadBlock := Some 5\<rparr>) (Some 10)
       = Some \<lparr>What = ''Homestead fork block'', StoredConfig = Some 0, NewConfig = Some 5, RewindTo = 0\<rparr>
   \<and> map_option (uint \<circ> RewindTo)
         (checkCompatible TestChainConfig (TestChainConfig\<lparr>HomesteadBlock := Some 5\<rparr>) (Some 10))
       \<noteq> Some (min 0 5 - 1)"
  by (simp add: checkCompatible_def isForkIncompatible_def newCompatError_def rew_def
      TestChainConfig_def IsDAOFork_def IsEIP158_def)




text \<open>
  C4, as the code has it. \<^verbatim>\<open>checkCompatible\<close> returns the support-flag error exactly when
  neither the Homestead block check nor the DAO block check fires at the head, the stored
  configuration has the DAO fork active at the head, and the two support flags differ.
  When the DAO fork is not active at the head, a candidate that differs from the stored
  configuration in the support flag alone gets no error, from \<^verbatim>\<open>checkCompatible\<close> and
  from \<^verbatim>\<open>CheckCompatible\<close>.
\<close>

theorem support_flag_conflict:
  "((\<exists>e. checkCompatible c n head = Some e \<and> What e = ''DAO fork support flag'') \<longleftrightarrow>
      \<not> isForkIncompatible (HomesteadBlock c) (HomesteadBlock n) head
      \<and> \<not> isForkIncompatible (DAOForkBlock c) (DAOForkBlock n) head
      \<and> IsDAOFork c head \<and> DAOForkSupport c \<noteq> DAOForkSupport n)
   \<and> (\<not> IsDAOFork c (Some (uint h)) \<longrightarrow>
        checkCompatible c (c\<lparr>DAOForkSupport := b\<rparr>) (Some (uint h)) = None
        \<and> CheckCompatible c (c\<lparr>DAOForkSupport := b\<rparr>) h = None)"
proof (intro conjI impI)
  show "(\<exists>e. checkCompatible c n head = Some e \<and> What e = ''DAO fork support flag'') \<longleftrightarrow>
      \<not> isForkIncompatible (HomesteadBlock c) (HomesteadBlock n) head
      \<and> \<not> isForkIncompatible (DAOForkBlock c) (DAOForkBlock n) head
      \<and> IsDAOFork c head \<and> DAOForkSupport c \<noteq> DAOForkSupport n"
    by (simp add: checkCompatible_def)
next
  assume a: "\<not> IsDAOFork c (Some (uint h))"
  then show "checkCompatible c (c\<lparr>DAOForkSupport := b\<rparr>) (Some (uint h)) = None"
    by (simp add: checkCompatible_None conflicts_flag_only)
  then show "CheckCompatible c (c\<lparr>DAOForkSupport := b\<rparr>) h = None"
    unfolding CheckCompatible_def by (subst CheckCompatible_loop.simps) simp
qed

theorem support_flag_conflict_witness:
  "IsDAOFork (TestChainConfig\<lparr>DAOForkBlock := Some 10, DAOForkSupport := True\<rparr>) (Some 20)
   \<and> checkCompatible (TestChainConfig\<lparr>DAOForkBlock := Some 10, DAOForkSupport := True\<rparr>)
         (TestChainConfig\<lparr>DAOForkBlock := Some 10\<rparr>) (Some 20)
       = Some \<lparr>What = ''DAO fork support flag'', StoredConfig = Some 10, NewConfig = Some 10,
               RewindTo = 9\<rparr>
   \<and> checkCompatible (TestChainConfig\<lparr>DAOForkBlock := Some 10\<rparr>)
         (TestChainConfig\<lparr>DAOForkBlock := Some 10, DAOForkSupport := True\<rparr>) (Some (uint (5 :: uint64)))
       = None
   \<and> CheckCompatible (TestChainConfig\<lparr>DAOForkBlock := Some 10\<rparr>)
         (TestChainConfig\<lparr>DAOForkBlock := Some 10, DAOForkSupport := True\<rparr>) 5 = None"
proof -
  let ?c = "TestChainConfig\<lparr>DAOForkBlock := Some 10, DAOForkSupport := True\<rparr>"
  let ?n = "TestChainConfig\<lparr>DAOForkBlock := Some 10\<rparr>"
  have a: "IsDAOFork ?c (Some 20)" by (simp add: eval_defs)
  have b: "\<not> isForkIncompatible (HomesteadBlock ?c) (HomesteadBlock ?n) (Some 20)"
    "\<not> isForkIncompatible (DAOForkBlock ?c) (DAOForkBlock ?n) (Some 20)"
    "DAOForkSupport ?c \<noteq> DAOForkSupport ?n"
    by (simp_all add: eval_defs)
  have c: "\<not> IsDAOFork ?n (Some (uint (5 :: uint64)))" by (simp add: eval_defs)
  note t = support_flag_conflict [of ?c ?n "Some 20"]
    support_flag_conflict [of ?n ?n "Some 20" 5 True]
  from t(1) a b obtain e where e: "checkCompatible ?c ?n (Some 20) = Some e"
    "What e = ''DAO fork support flag''" by blast
  have "checkCompatible ?c ?n (Some 20)
       = Some \<lparr>What = ''DAO fork support flag'', StoredConfig = Some 10, NewConfig = Some 10,
               RewindTo = 9\<rparr>"
    by (simp add: eval_defs)
  moreover from t(2) c
  have "checkCompatible ?n (?n\<lparr>DAOForkSupport := True\<rparr>) (Some (uint (5 :: uint64))) = None
        \<and> CheckCompatible ?n (?n\<lparr>DAOForkSupport := True\<rparr>) 5 = None" by blast
  ultimately show ?thesis using a e by simp
qed

text \<open>
  C4 as the spec states it, a support-flag error whenever the flags differ and the DAO
  fork is active at the head, fails when an earlier check fires first: here the flags
  differ and the DAO fork is active at head 10, but the Homestead heights 0 and 5
  disagree, and both \<^verbatim>\<open>checkCompatible\<close> and \<^verbatim>\<open>CheckCompatible\<close> report the Homestead
  fork block.
\<close>

theorem support_flag_conflict_counterexample:
  "IsDAOFork (TestChainConfig\<lparr>DAOForkBlock := Some 0, DAOForkSupport := True\<rparr>) (Some 10)
   \<and> DAOForkSupport (TestChainConfig\<lparr>DAOForkBlock := Some 0, DAOForkSupport := True\<rparr>)
       \<noteq> DAOForkSupport (TestChainConfig\<lparr>DAOForkBlock := Some 0, HomesteadBlock := Some 5\<rparr>)
   \<and> checkCompatible (TestChainConfig\<lparr>DAOForkBlock := Some 0, DAOForkSupport := True\<rparr>)
         (TestChainConfig\<lparr>DAOForkBlock := Some 0, HomesteadBlock := Some 5\<rparr>) (Some 10)
       = Some \<lparr>What = ''Homestead fork block'', StoredConfig = Some 0, NewConfig = Some 5,
               RewindTo = 0\<rparr>
   \<and> CheckCompatible (TestChainConfig\<lparr>DAOForkBlock := Some 0, DAOForkSupport := True\<rparr>)
         (TestChainConfig\<lparr>DAOForkBlock := Some 0, HomesteadBlock := Some 5\<rparr>) 10
       = Some \<lparr>What = ''Homestead fork block'', StoredConfig = Some 0, NewConfig = Some 5,
               RewindTo = 0\<rparr>"
  by (simp add: CheckCompatible_def CheckCompatible_loop.simps eval_defs)

text \<open>
  C10. In every error that \<^verbatim>\<open>checkCompatible\<close> at a \<^verbatim>\<open>uint64\<close> head or
  \<^verbatim>\<open>CheckCompatible\<close> returns, the block \<open>g\<close> that governs the rewind is set and not
  above the head; \<^verbatim>\<open>RewindTo\<close> is \<open>g - 1\<close>, without wrap-around and so strictly below
  \<open>g\<close>, when \<open>g\<close> is positive, and 0 otherwise. \<^verbatim>\<open>newCompatError\<close> leaves \<^verbatim>\<open>RewindTo\<close>
  at 0 when the governing block is nil.
\<close>

theorem RewindTo_no_underflow:
  assumes "checkCompatible c n (Some (uint h)) = Some err \<or> CheckCompatible c n h = Some err"
  shows "(\<exists>g. rew (StoredConfig err) (NewConfig err) = Some g \<and> g \<le> uint h
            \<and> (0 < g \<longrightarrow> uint (RewindTo err) = g - 1 \<and> uint (RewindTo err) < g)
            \<and> (g \<le> 0 \<longrightarrow> RewindTo err = 0))
       \<and> (rew s1 s2 = None \<longrightarrow> RewindTo (newCompatError what s1 s2) = 0)"
proof -
  have nil: "rew s1 s2 = None \<longrightarrow> RewindTo (newCompatError what s1 s2) = 0"
    by (simp add: newCompatError_def)
  from conflict_rewind [OF returned_in_conflicts [OF assms]] obtain r
    where r: "rew (StoredConfig err) (NewConfig err) = Some r" "r \<le> uint h"
      "uint (RewindTo err) = max 0 (r - 1)" by blast
  have "RewindTo err = 0" if "r \<le> 0"
  proof -
    from that r(3) have "uint (RewindTo err) = 0" by simp
    then show ?thesis by (simp add: word_uint_eq_iff)
  qed
  with r have "\<exists>g. rew (StoredConfig err) (NewConfig err) = Some g \<and> g \<le> uint h
            \<and> (0 < g \<longrightarrow> uint (RewindTo err) = g - 1 \<and> uint (RewindTo err) < g)
            \<and> (g \<le> 0 \<longrightarrow> RewindTo err = 0)" by auto
  with nil show ?thesis by blast
qed

theorem RewindTo_no_underflow_witness:
  "CheckCompatible stored6 candidate6 100
       = Some \<lparr>What = ''Byzantium fork block'', StoredConfig = Some 10, NewConfig = Some 15,
               RewindTo = 9\<rparr>
   \<and> rew (Some 10) (Some 15) = Some 10 \<and> (10 :: int) \<le> uint (100 :: uint64)
   \<and> uint (9 :: uint64) = 10 - 1 \<and> uint (9 :: uint64) < 10
   \<and> rew None None = None \<and> RewindTo (newCompatError ''DAO fork block'' None None) = 0"
proof -
  let ?e6 = "\<lparr>What = ''Byzantium fork block'', StoredConfig = Some 10, NewConfig = Some 15,
               RewindTo = (9 :: uint64)\<rparr>"
  have b: "CheckCompatible stored6 candidate6 100 = Some ?e6"
    by (simp add: CheckCompatible_def CheckCompatible_loop.simps eval_defs stored6_def
        candidate6_def)
  have c: "rew None None = None" by (simp add: rew_def)
  from RewindTo_no_underflow [OF disjI2 [OF b], of None None "''DAO fork block''"] b c
  show ?thesis by (simp add: rew_def)
qed

section \<open>Engine selection: the claim\<close>

text \<open>
  C5. When the chain configuration carries a proof-of-authority sub-config,
  \<^verbatim>\<open>CreateConsensusEngine\<close> returns the proof-of-authority engine built from that
  sub-config and the database, whatever the mode and the other settings are.
\<close>

theorem clique_wins:
  "Clique chainConfig = Some clique \<Longrightarrow>
     CreateConsensusEngine resolvePath config chainConfig db = Clique_New clique db"
  by (simp add: CreateConsensusEngine_def)

theorem clique_wins_witness:
  "Clique AllCliqueProtocolChanges = Some \<lparr>Period = 0, Epoch = 30000\<rparr>
     \<and> CreateConsensusEngine (\<lambda>p. p)
          \<lparr> CacheDir = ''ruehash'', CachesInMem = 2, CachesOnDisk = 3, DatasetDir = ''.ruehash'',
            DatasetsInMem = 1, DatasetsOnDisk = 2, PowMode = ModeFake \<rparr>
          AllCliqueProtocolChanges ''chaindata''
        = Clique_New \<lparr>Period = 0, Epoch = 30000\<rparr> ''chaindata''"
proof -
  have a: "Clique AllCliqueProtocolChanges = Some \<lparr>Period = 0, Epoch = 30000\<rparr>"
    by (simp add: AllCliqueProtocolChanges_def)
  from clique_wins [OF a] a show ?thesis by simp
qed

section \<open>The beneficiary: the claim\<close>

text \<open>
  C7, as the code has it. \<^verbatim>\<open>Ruebase\<close> returns the field \<^verbatim>\<open>ruebase\<close> when it is not the
  zero address and changes nothing. Otherwise, when the first wallet of the account
  manager has an account, it returns the address of the first account of that wallet and
  stores it in the field; if that address is not zero, a second call returns it whatever
  the account manager then holds. Otherwise, when there is no wallet or the first wallet
  has no account, it fails with the error ``ruebase must be explicitly specified'' and
  changes nothing.
\<close>

theorem Ruebase_spec:
  "(ruebase s \<noteq> 0 \<longrightarrow> Ruebase s = (Inr (ruebase s), s))
   \<and> (ruebase s = 0 \<and> accountManager s = (a # accounts) # wallets \<longrightarrow>
        Ruebase s = (Inr a, s\<lparr>ruebase := a\<rparr>)
        \<and> (a \<noteq> 0 \<longrightarrow> Ruebase (s\<lparr>ruebase := a, accountManager := am\<rparr>)
                          = (Inr a, s\<lparr>ruebase := a, accountManager := am\<rparr>)))
   \<and> (ruebase s = 0 \<and> (accountManager s = [] \<or> (\<exists>wallets. accountManager s = [] # wallets)) \<longrightarrow>
        Ruebase s = (Inl ''ruebase must be explicitly specified'', s))"
  by (auto simp: Ruebase_def)

theorem Ruebase_spec_witness:
  "Ruebase \<lparr>ruebase = 7, accountManager = [[5]]\<rparr> = (Inr 7, \<lparr>ruebase = 7, accountManager = [[5]]\<rparr>)
   \<and> Ruebase \<lparr>ruebase = 0, accountManager = [[5, 6], [8]]\<rparr>
       = (Inr 5, \<lparr>ruebase = 5, accountManager = [[5, 6], [8]]\<rparr>)
   \<and> Ruebase \<lparr>ruebase = 5, accountManager = []\<rparr> = (Inr 5, \<lparr>ruebase = 5, accountManager = []\<rparr>)
   \<and> Ruebase \<lparr>ruebase = 0, accountManager = []\<rparr>
       = (Inl ''ruebase must be explicitly specified'', \<lparr>ruebase = 0, accountManager = []\<rparr>)"
proof -
  note t1 = Ruebase_spec [of "\<lparr>ruebase = 7, accountManager = [[5]]\<rparr>"]
  note t2 = Ruebase_spec [of "\<lparr>ruebase = 0, accountManager = [[5, 6], [8]]\<rparr>" 5 "[6]" "[[8]]" "[]"]
  note t3 = Ruebase_spec [of "\<lparr>ruebase = 0, accountManager = []\<rparr>"]
  from t1 have a: "Ruebase \<lparr>ruebase = 7, accountManager = [[5]]\<rparr>
                     = (Inr 7, \<lparr>ruebase = 7, accountManager = [[5]]\<rparr>)" by simp
  from t2 have b: "Ruebase \<lparr>ruebase = 0, accountManager = [[5, 6], [8]]\<rparr>
       = (Inr 5, \<lparr>ruebase = 5, accountManager = [[5, 6], [8]]\<rparr>)"
    "Ruebase \<lparr>ruebase = 5, accountManager = []\<rparr> = (Inr 5, \<lparr>ruebase = 5, accountManager = []\<rparr>)"
    by simp_all
  from t3 have c: "Ruebase \<lparr>ruebase = 0, accountManager = []\<rparr>
       = (Inl ''ruebase must be explicitly specified'', \<lparr>ruebase = 0, accountManager = []\<rparr>)"
    by simp
  from a b c show ?thesis by blast
qed

text \<open>
  C7 as the spec states it has the first managed account returned whenever there is one.
  With an empty first wallet and an account in the second, \<^verbatim>\<open>Ruebase\<close> fails.
\<close>

theorem Ruebase_counterexample:
  "concat (accountManager \<lparr>ruebase = 0, accountManager = [[], [5]]\<rparr>) = [5]
   \<and> Ruebase \<lparr>ruebase = 0, accountManager = [[], [5]]\<rparr>
       = (Inl ''ruebase must be explicitly specified'', \<lparr>ruebase = 0, accountManager = [[], [5]]\<rparr>)"
  by (simp add: Ruebase_def)

end
